theory Spec2Isabelle
  imports Complex_Main
begin

section \<open>Data model (frontend/lib/api.ts)\<close>

text \<open>
  The \<open>List\<close> interface of \<open>api.ts\<close>. The page holds the fetched records as \<open>any\<close>
  and tests \<open>created_at\<close> for truthiness, so every field that the page reads
  defensively is optional here: \<open>None\<close> is a field that is absent from the fetched
  object (JavaScript \<open>undefined\<close>).
\<close>

record List_t =
  id' :: string
  name :: string
  search_url :: "string option"
  profile_count :: "int option"
  count' :: "int option"
  created_at :: "string option"

section \<open>The processing classifier (frontend/app/lists/page.tsx, isListProcessing)\<close>

text \<open>
  \<open>new Date(s).getTime()\<close> is a function of the JavaScript runtime, not of this
  repository: it is the parameter \<open>parseDate\<close>, with \<open>None\<close> for an invalid date
  (\<open>NaN\<close>, for which \<open>NaN < 10\<close> is false). The clock reading \<open>new Date()\<close> is the
  parameter \<open>now\<close>, in milliseconds. Timestamps are integers, so the quotient by
  \<open>1000 * 60\<close> is taken in the rationals.
\<close>

definition diffMinutes :: "int \<Rightarrow> int \<Rightarrow> rat" where
  "diffMinutes now createdAt = of_int (now - createdAt) / (1000 * 60)"

definition isListProcessing :: "(string \<Rightarrow> int option) \<Rightarrow> int \<Rightarrow> List_t \<Rightarrow> bool" where
  "isListProcessing parseDate now l =
     (if profile_count l \<noteq> Some 0 then False
      else (case created_at l of
              None \<Rightarrow> False
            | Some s \<Rightarrow>
                if s = [] then False
                else (case parseDate s of
                        None \<Rightarrow> False
                      | Some createdAt \<Rightarrow> diffMinutes now createdAt < 10)))"

section \<open>The API client (frontend/lib/api.ts)\<close>

text \<open>
  A parsed JSON value. Numbers are the integer-valued ones; an object keeps its members
  in source order, and a repeated key takes its last value, as \<open>JSON.parse\<close> does.
\<close>

datatype json =
  JNull
| JBool bool
| JNum int
| JStr string
| JArr "json list"
| JObj "(string \<times> json) list"

text \<open>
  What a rejected promise carries. \<open>Error\<close>, \<open>TypeError\<close> and \<open>SyntaxError\<close> are
  instances of the JavaScript class \<open>Error\<close> and have a message; \<open>Other\<close> stands for
  a thrown value that is not an \<open>Error\<close>.
\<close>

datatype thrown = Error string | TypeError string | SyntaxError string | Other

fun message :: "thrown \<Rightarrow> string" where
  "message (Error m) = m"
| "message (TypeError m) = m"
| "message (SyntaxError m) = m"
| "message Other = []"

fun instanceofError :: "thrown \<Rightarrow> bool" where
  "instanceofError Other = False"
| "instanceofError _ = True"

text \<open>
  \<open>RequestInit\<close>, as far as \<open>apiRequest\<close> and its callers use it. Every caller
  passes \<open>JSON.stringify(data)\<close> as the body: the field holds \<open>data\<close>.
\<close>

record RequestInit =
  method' :: "string option"
  body :: "json option"
  headers :: "(string \<rightharpoonup> string) option"

text \<open>The arguments that reach \<open>fetch\<close>.\<close>

record Request =
  url :: string
  init_method :: "string option"
  init_body :: "json option"
  init_headers :: "string \<rightharpoonup> string"




text \<open>
  \<open>process.env.NEXT_PUBLIC_API_URL || ''\<close> and \<open>process.env.NEXT_PUBLIC_API_KEY || ''\<close>:
  the environment variable is the argument, \<open>None\<close> when it is not set.
\<close>

definition API_BASE_URL :: "string option \<Rightarrow> string" where
  "API_BASE_URL env = (case env of None \<Rightarrow> [] | Some u \<Rightarrow> if u = [] then [] else u)"

definition API_KEY :: "string option \<Rightarrow> string" where
  "API_KEY env = (case env of None \<Rightarrow> [] | Some k \<Rightarrow> if k = [] then [] else k)"

text \<open>Lines 8 to 27 of \<open>apiRequest\<close>: the request handed to \<open>fetch\<close>.\<close>

definition buildRequest :: "string option \<Rightarrow> string option \<Rightarrow> string \<Rightarrow> RequestInit \<Rightarrow> Request" where
  "buildRequest envUrl envKey endpoint options =
     (let h0 = [''Content-Type'' \<mapsto> ''application/json'']
                 ++ (case headers options of None \<Rightarrow> Map.empty | Some oh \<Rightarrow> oh);
          h1 = (if API_KEY envKey \<noteq> [] then h0(''X-API-KEY'' \<mapsto> API_KEY envKey) else h0)
      in \<lparr>url = API_BASE_URL envUrl @ endpoint,
          init_method = method' options,
          init_body = body options,
          init_headers = h1\<rparr>)"




text \<open>
  \<open>String(v)\<close>, which \<open>new Error(v)\<close> applies to its argument. How the runtime
  prints a number is the parameter \<open>numberToString\<close>. An array is joined with commas,
  \<open>null\<close> elements printing as nothing. A parsed object prints through
  \<open>Object.prototype.toString\<close>, unless it has a member named \<open>toString\<close> of its own:
  that member is not a function, \<open>valueOf\<close> yields no primitive either, and the
  conversion raises a \<open>TypeError\<close>.
\<close>

definition cannotConvertMessage :: string where
  "cannotConvertMessage = ''Cannot convert object to primitive value''"

fun toString :: "(int \<Rightarrow> string) \<Rightarrow> json \<Rightarrow> thrown + string"
  and joinElements :: "(int \<Rightarrow> string) \<Rightarrow> json list \<Rightarrow> thrown + string" where
  "toString numberToString JNull = Inr ''null''"
| "toString numberToString (JBool b) = Inr (if b then ''true'' else ''false'')"
| "toString numberToString (JNum i) = Inr (numberToString i)"
| "toString numberToString (JStr s) = Inr s"
| "toString numberToString (JArr xs) = joinElements numberToString xs"
| "toString numberToString (JObj kvs) =
     (if ''toString'' \<in> set (map fst kvs) then Inl (TypeError cannotConvertMessage)
      else Inr ''[object Object]'')"
| "joinElements numberToString [] = Inr []"
| "joinElements numberToString (x # xs) =
     (case (case x of JNull \<Rightarrow> Inr [] | _ \<Rightarrow> toString numberToString x) of
        Inl e \<Rightarrow> Inl e
      | Inr s \<Rightarrow>
          if xs = [] then Inr s
          else (case joinElements numberToString xs of
                  Inl e \<Rightarrow> Inl e
                | Inr r \<Rightarrow> Inr (s @ '','' @ r)))"




text \<open>
  The operations of the exported \<open>api\<close> object, the only callers of \<open>apiRequest\<close>.
\<close>

datatype api_call =
  health
| getLists
| getList string
| getListProspects string
| updateList string json
| deleteList string
| populateList json
| sendCampaign json
| verifyConnections json
| getSenders
| toggleSender string
| updateSender string json
| createSender json

fun endpoint :: "api_call \<Rightarrow> string" where
  "endpoint health = ''/health''"
| "endpoint getLists = ''/lists''"
| "endpoint (getList listId) = ''/lists/'' @ listId"
| "endpoint (getListProspects listId) = ''/lists/'' @ listId @ ''/prospects''"
| "endpoint (updateList listId data) = ''/lists/'' @ listId"
| "endpoint (deleteList listId) = ''/lists/'' @ listId"
| "endpoint (populateList data) = ''/lists/populate''"
| "endpoint (sendCampaign data) = ''/campaigns/send''"
| "endpoint (verifyConnections data) = ''/connections/verify''"
| "endpoint getSenders = ''/senders''"
| "endpoint (toggleSender senderId) = ''/senders/'' @ senderId @ ''/toggle''"
| "endpoint (updateSender senderId data) = ''/senders/'' @ senderId"
| "endpoint (createSender data) = ''/senders''"

fun options :: "api_call \<Rightarrow> RequestInit" where
  "options health = \<lparr>method' = Some ''GET'', body = None, headers = None\<rparr>"
| "options getLists = \<lparr>method' = Some ''GET'', body = None, headers = None\<rparr>"
| "options (getList listId) = \<lparr>method' = Some ''GET'', body = None, headers = None\<rparr>"
| "options (getListProspects listId) = \<lparr>method' = Some ''GET'', body = None, headers = None\<rparr>"
| "options (updateList listId data) = \<lparr>method' = Some ''PATCH'', body = Some data, headers = None\<rparr>"
| "options (deleteList listId) = \<lparr>method' = Some ''DELETE'', body = None, headers = None\<rparr>"
| "options (populateList data) = \<lparr>method' = Some ''POST'', body = Some data, headers = None\<rparr>"
| "options (sendCampaign data) = \<lparr>method' = Some ''POST'', body = Some data, headers = None\<rparr>"
| "options (verifyConnections data) = \<lparr>method' = Some ''POST'', body = Some data, headers = None\<rparr>"
| "options getSenders = \<lparr>method' = Some ''GET'', body = None, headers = None\<rparr>"
| "options (toggleSender senderId) = \<lparr>method' = Some ''PATCH'', body = None, headers = None\<rparr>"
| "options (updateSender senderId data) = \<lparr>method' = Some ''PATCH'', body = Some data, headers = None\<rparr>"
| "options (createSender data) = \<lparr>method' = Some ''POST'', body = Some data, headers = None\<rparr>"

definition requestOf :: "string option \<Rightarrow> string option \<Rightarrow> api_call \<Rightarrow> Request" where
  "requestOf envUrl envKey c = buildRequest envUrl envKey (endpoint c) (options c)"

section \<open>The lists page (frontend/app/lists/page.tsx)\<close>

text \<open>The argument of \<open>toast\<close>.\<close>

record toast_t =
  title :: string
  description :: string
  variant :: "string option"

text \<open>
  One run of the polling effect owns the closure variables \<open>processingListIds\<close> and
  \<open>isPolling\<close> and the interval handle. \<open>cleared\<close> records that \<open>clearInterval\<close> was
  called on the handle.
\<close>

record Loop =
  processingListIds :: "string list"
  isPolling :: bool
  cleared :: bool

text \<open>
  The component instance. The first seventeen fields are its \<open>useState\<close> variables.
  \<open>toasts\<close> collects the arguments of the \<open>toast\<close> calls, \<open>calls\<close> the API operations
  invoked, \<open>setListsCalls\<close> counts the calls of \<open>setLists\<close> and \<open>setIntervalCalls\<close> those of
  \<open>setInterval\<close>. \<open>loop\<close> is the closure of the latest run of the polling effect that
  created a timer (\<open>None\<close> when no run has) and \<open>pending\<close> the number of
  \<open>api.getLists()\<close> calls of its interval callback that are awaiting their response.
  \<open>earlier\<close> holds the closures of the runs before it, each with the number of its
  calls still awaiting: a closure lives on for as long as a callback refers to it.
\<close>

record Page =
  lists :: "List_t list"
  isModalOpen :: bool
  isLoading :: bool
  isLoadingLists :: bool
  searchUrl :: string
  profileLimit :: int
  collectOnly :: bool
  sendNote :: bool
  noteText :: string
  enabledSendersCount :: nat
  renameDialogOpen :: bool
  listToRename :: "List_t option"
  newListName :: string
  isRenaming :: bool
  deleteDialogOpen :: bool
  listToDelete :: "List_t option"
  isDeleting :: bool
  toasts :: "toast_t list"
  calls :: "api_call list"
  setListsCalls :: nat
  setIntervalCalls :: nat
  loop :: "Loop option"
  pending :: nat
  earlier :: "(Loop \<times> nat) list"

text \<open>The component as \<open>useState\<close> initialises it, before any effect has run.\<close>

definition initialPage :: Page where
  "initialPage =
     \<lparr>lists = [], isModalOpen = False, isLoading = False, isLoadingLists = True,
      searchUrl = [], profileLimit = 20, collectOnly = False, sendNote = False,
      noteText = [], enabledSendersCount = 0,
      renameDialogOpen = False, listToRename = None, newListName = [], isRenaming = False,
      deleteDialogOpen = False, listToDelete = None, isDeleting = False,
      toasts = [], calls = [], setListsCalls = 0, setIntervalCalls = 0,
      loop = None, pending = 0, earlier = []\<rparr>"

definition toast :: "toast_t \<Rightarrow> Page \<Rightarrow> Page" where
  "toast t p = p\<lparr>toasts := toasts p @ [t]\<rparr>"

definition setLists :: "List_t list \<Rightarrow> Page \<Rightarrow> Page" where
  "setLists ls p = p\<lparr>lists := ls, setListsCalls := setListsCalls p + 1\<rparr>"

text \<open>\<open>error instanceof Error ? error.message : fallback\<close> in a destructive toast.\<close>

definition errorToast :: "string \<Rightarrow> thrown \<Rightarrow> toast_t" where
  "errorToast fallback e =
     \<lparr>title = ''Error'',
      description = (if instanceofError e then message e else fallback),
      variant = Some ''destructive''\<rparr>"

subsection \<open>The polling effect (second useEffect)\<close>

definition processingIds :: "(string \<Rightarrow> int option) \<Rightarrow> int \<Rightarrow> List_t list \<Rightarrow> string list" where
  "processingIds parseDate now ls = map id' (filter (isListProcessing parseDate now) ls)"

text \<open>
  The body of the effect, run at time \<open>now\<close> over the component's \<open>lists\<close>: it returns
  at once when no list is processing, and otherwise creates a closure and a timer. The
  closure of the run before, with its calls still awaiting, moves to \<open>earlier\<close>.
\<close>

definition pollingEffect :: "(string \<Rightarrow> int option) \<Rightarrow> int \<Rightarrow> Page \<Rightarrow> Page" where
  "pollingEffect parseDate now p =
     (let ids = processingIds parseDate now (lists p) in
      if length ids = 0
      then p
      else p\<lparr>earlier := (case loop p of
                            None \<Rightarrow> earlier p
                          | Some lp \<Rightarrow> earlier p @ [(lp, pending p)]),
             loop := Some \<lparr>processingListIds = ids, isPolling = True, cleared = False\<rparr>,
             pending := 0,
             setIntervalCalls := setIntervalCalls p + 1\<rparr>)"

definition stillProcessing ::
  "(string \<Rightarrow> int option) \<Rightarrow> int \<Rightarrow> string list \<Rightarrow> List_t list \<Rightarrow> bool" where
  "stillProcessing parseDate now ids updatedLists =
     list_ex (\<lambda>l. id' l \<in> set ids \<and> isListProcessing parseDate now l) updatedLists"

text \<open>
  What can happen to the latest run of the effect. The interval callback is asynchronous: \<open>Tick\<close>
  is its synchronous prefix up to \<open>await api.getLists()\<close>; \<open>Resolved updatedLists now\<close> is
  its continuation when an awaited call returns \<open>updatedLists\<close> at time \<open>now\<close>;
  \<open>Rejected\<close> is its continuation in the \<open>catch\<close> block; \<open>Cleanup\<close> is the function that
  the effect returns. Once \<open>clearInterval\<close> has run the callback is not entered again.
\<close>

datatype event = Tick | Resolved "List_t list" int | Rejected | Cleanup

fun step :: "(string \<Rightarrow> int option) \<Rightarrow> event \<Rightarrow> Page \<Rightarrow> Page" where
  "step parseDate Tick p =
     (case loop p of
        None \<Rightarrow> p
      | Some lp \<Rightarrow>
          if cleared lp then p
          else if \<not> isPolling lp then p
          else p\<lparr>calls := calls p @ [getLists], pending := pending p + 1\<rparr>)"
| "step parseDate (Resolved updatedLists now) p =
     (case loop p of
        None \<Rightarrow> p
      | Some lp \<Rightarrow>
          if pending p = 0 then p
          else if \<not> stillProcessing parseDate now (processingListIds lp) updatedLists
          then (setLists updatedLists p)
                 \<lparr>loop := Some (lp\<lparr>isPolling := False\<rparr>), pending := pending p - 1\<rparr>
          else p\<lparr>pending := pending p - 1\<rparr>)"
| "step parseDate Rejected p =
     (case loop p of
        None \<Rightarrow> p
      | Some lp \<Rightarrow> if pending p = 0 then p else p\<lparr>pending := pending p - 1\<rparr>)"
| "step parseDate Cleanup p =
     (case loop p of
        None \<Rightarrow> p
      | Some lp \<Rightarrow> p\<lparr>loop := Some (lp\<lparr>isPolling := False, cleared := True\<rparr>)\<rparr>)"

fun run :: "(string \<Rightarrow> int option) \<Rightarrow> event list \<Rightarrow> Page \<Rightarrow> Page" where
  "run parseDate [] p = p"
| "run parseDate (e # es) p = run parseDate es (step parseDate e p)"

text \<open>The timer exists and its callback still gets past \<open>if (!isPolling) return\<close>.\<close>

definition loopActive :: "Page \<Rightarrow> bool" where
  "loopActive p = (case loop p of None \<Rightarrow> False | Some lp \<Rightarrow> isPolling lp \<and> \<not> cleared lp)"

text \<open>
  The same four things can happen to an earlier run, whose closure is \<open>earlier p ! i\<close>:
  the code is the same, executed with that closure's variables.
\<close>

definition stepEarlier :: "(string \<Rightarrow> int option) \<Rightarrow> nat \<Rightarrow> event \<Rightarrow> Page \<Rightarrow> Page" where
  "stepEarlier parseDate i e p =
     (if i < length (earlier p) then
        (case earlier p ! i of
           (lp, n) \<Rightarrow>
             (let q = step parseDate e (p\<lparr>loop := Some lp, pending := n\<rparr>) in
              case loop q of
                None \<Rightarrow> p
              | Some lp' \<Rightarrow>
                  q\<lparr>earlier := (earlier p)[i := (lp', pending q)],
                    loop := loop p, pending := pending p\<rparr>))
      else p)"

subsection \<open>The mutation handlers\<close>

text \<open>
  Each handler awaits API calls. The outcome of a call is an argument of the model:
  \<open>Inl e\<close> when the call throws \<open>e\<close>, \<open>Inr v\<close> when it returns \<open>v\<close>. An outcome is
  read only where the source makes the call. \<open>String.prototype.trim\<close> belongs to the
  runtime and is the parameter \<open>trim\<close>.
\<close>

definition fetchLists :: "thrown + List_t list \<Rightarrow> Page \<Rightarrow> Page" where
  "fetchLists listsRes p =
     (let p1 = p\<lparr>isLoadingLists := True\<rparr>;
          p2 = p1\<lparr>calls := calls p1 @ [getLists]\<rparr>;
          p3 = (case listsRes of
                  Inr listsData \<Rightarrow> setLists listsData p2
                | Inl e \<Rightarrow> toast (errorToast ''Failed to load lists'' e) p2)
      in p3\<lparr>isLoadingLists := False\<rparr>)"

definition requestData :: "Page \<Rightarrow> json" where
  "requestData p =
     JObj [(''search_url'', JStr (searchUrl p)),
           (''profile_limit'', JNum (profileLimit p)),
           (''collect_only'', JBool (collectOnly p)),
           (''send_note'', JBool (sendNote p)),
           (''note_text'', JStr (noteText p))]"

definition handleGenerateList ::
  "(string \<Rightarrow> string) \<Rightarrow> thrown + json \<Rightarrow> thrown + List_t list \<Rightarrow> Page \<Rightarrow> Page" where
  "handleGenerateList trim populateRes listsRes p =
     (if trim (searchUrl p) = [] then
        toast \<lparr>title = ''Error'', description = ''Please enter a LinkedIn search URL'',
               variant = Some ''destructive''\<rparr> p
      else
        (let p1 = p\<lparr>isLoading := True\<rparr>;
             p2 = p1\<lparr>calls := calls p1 @ [populateList (requestData p)]\<rparr>;
             p3 = (case populateRes of
                     Inr result \<Rightarrow>
                       (let q1 = toast \<lparr>title = ''Success'',
                                        description = ''List generation started successfully'',
                                        variant = None\<rparr> p2;
                            q2 = q1\<lparr>isModalOpen := False, searchUrl := [], profileLimit := 20,
                                    collectOnly := False, sendNote := False, noteText := []\<rparr>
                        in fetchLists listsRes q2)
                   | Inl e \<Rightarrow> toast (errorToast ''Failed to generate list'' e) p2)
         in p3\<lparr>isLoading := False\<rparr>))"

definition handleRename ::
  "(string \<Rightarrow> string) \<Rightarrow> thrown + json \<Rightarrow> thrown + List_t list \<Rightarrow> Page \<Rightarrow> Page" where
  "handleRename trim updateRes listsRes p =
     (case listToRename p of
        None \<Rightarrow>
          toast \<lparr>title = ''Error'', description = ''Please enter a list name'',
                 variant = Some ''destructive''\<rparr> p
      | Some l \<Rightarrow>
          if trim (newListName p) = [] then
            toast \<lparr>title = ''Error'', description = ''Please enter a list name'',
                   variant = Some ''destructive''\<rparr> p
          else
            (let p1 = p\<lparr>isRenaming := True\<rparr>;
                 p2 = p1\<lparr>calls := calls p1
                           @ [updateList (id' l) (JObj [(''name'', JStr (trim (newListName p)))])]\<rparr>;
                 p3 = (case updateRes of
                         Inr result \<Rightarrow>
                           (let q1 = toast \<lparr>title = ''Success'',
                                            description = ''List renamed successfully'',
                                            variant = None\<rparr> p2;
                                q2 = q1\<lparr>renameDialogOpen := False, listToRename := None,
                                        newListName := []\<rparr>
                            in fetchLists listsRes q2)
                       | Inl e \<Rightarrow> toast (errorToast ''Failed to rename list'' e) p2)
             in p3\<lparr>isRenaming := False\<rparr>))"

definition handleDelete :: "thrown + json \<Rightarrow> thrown + List_t list \<Rightarrow> Page \<Rightarrow> Page" where
  "handleDelete deleteRes listsRes p =
     (case listToDelete p of
        None \<Rightarrow> p
      | Some l \<Rightarrow>
          (let p1 = p\<lparr>isDeleting := True\<rparr>;
               p2 = p1\<lparr>calls := calls p1 @ [deleteList (id' l)]\<rparr>;
               p3 = (case deleteRes of
                       Inr result \<Rightarrow>
                         (let q1 = toast \<lparr>title = ''Success'',
                                          description = ''List deleted successfully'',
                                          variant = None\<rparr> p2;
                              q2 = q1\<lparr>deleteDialogOpen := False, listToDelete := None\<rparr>
                          in fetchLists listsRes q2)
                     | Inl e \<Rightarrow> toast (errorToast ''Failed to delete list'' e) p2)
           in p3\<lparr>isDeleting := False\<rparr>))"

section \<open>Example data\<close>


definition isWhiteSpace :: "char \<Rightarrow> bool" where
  "isWhiteSpace c = (c \<in> set [CHR '' '', CHR 0x09, CHR 0x0A, CHR 0x0B, CHR 0x0C, CHR 0x0D])"

definition asciiTrim :: "string \<Rightarrow> string" where
  "asciiTrim s = rev (dropWhile isWhiteSpace (rev (dropWhile isWhiteSpace s)))"

text \<open>A date parser that knows one timestamp, 2024-01-01T00:00:00Z.\<close>

definition exampleParse :: "string \<Rightarrow> int option" where
  "exampleParse s = (if s = ''2024-01-01T00:00:00.000Z'' then Some 1704067200000 else None)"

text \<open>A list as the backend reports it right after a populate request.\<close>

definition listA :: List_t where
  "listA = \<lparr>id' = ''a'', name = ''A'', search_url = None, profile_count = Some 0,
            count' = None, created_at = Some ''2024-01-01T00:00:00.000Z''\<rparr>"

text \<open>The same list, sized only through the alternative \<open>count\<close> field.\<close>

definition listCountOnly :: List_t where
  "listCountOnly = \<lparr>id' = ''c'', name = ''C'', search_url = None, profile_count = None,
                    count' = Some 0, created_at = Some ''2024-01-01T00:00:00.000Z''\<rparr>"

text \<open>The component showing \<open>listA\<close>, and the effect started over it one second after creation.\<close>

definition pageA :: Page where
  "pageA = initialPage\<lparr>lists := [listA], isLoadingLists := False\<rparr>"

definition startedA :: Page where
  "startedA = pollingEffect exampleParse 1704067201000 pageA"

text \<open>
  The component after that run has polled once and settled on five profiles; and the
  component later still, when a second list has been fetched and React has cleaned the run
  up because the number of lists changed.
\<close>

definition settledA :: Page where
  "settledA = run exampleParse
                [Tick, Resolved [listA\<lparr>profile_count := Some 5\<rparr>] 1704067206000] startedA"

definition rerunA :: Page where
  "rerunA = step exampleParse Cleanup
              (setLists [listA\<lparr>profile_count := Some 5\<rparr>, listCountOnly] settledA)"

text \<open>
  The component when a second list arrives while the first poll of \<open>listA\<close> is still in
  flight: React cleans the run up and runs the effect again, and \<open>listA\<close> is still
  processing.
\<close>

definition restartedA :: Page where
  "restartedA = pollingEffect exampleParse 1704067207000
                  (step exampleParse Cleanup
                     (setLists [listA, listCountOnly] (step exampleParse Tick startedA)))"

text \<open>The component with the populate form filled in and the rename and delete dialogs open.\<close>

definition formA :: Page where
  "formA = pageA\<lparr>isModalOpen := True, searchUrl := ''https://x/search?kw=eng'',
                  profileLimit := 50, collectOnly := True,
                  renameDialogOpen := True, listToRename := Some listA, newListName := '' Leads '',
                  deleteDialogOpen := True, listToDelete := Some listA\<rparr>"

section \<open>Properties of the classifier\<close>

lemma diffMinutes_lt_10: "diffMinutes now t < 10 \<longleftrightarrow> now - t < 10 * 60 * 1000"
proof -
  have "diffMinutes now t < 10 \<longleftrightarrow> (of_int (now - t) :: rat) < 600000"
    by (simp add: diffMinutes_def field_simps)
  also have "\<dots> \<longleftrightarrow> (of_int (now - t) :: rat) < of_int 600000"
    by simp
  also have "\<dots> \<longleftrightarrow> now - t < 600000"
    by (simp only: of_int_less_iff)
  finally show ?thesis by simp
qed

text \<open>
  C1. The classifier returns true exactly for a list whose \<open>profile_count\<close> is zero and
  whose creation timestamp is less than 10 minutes (600000 ms) before the current time;
  at 10 minutes and beyond it returns false, and with a non-zero \<open>profile_count\<close> it
  returns false whatever the timestamp. The age is \<open>now - createdAt\<close>, where \<open>createdAt\<close>
  is the time that the non-empty \<open>created_at\<close> string denotes.
\<close>

theorem isListProcessing_iff:
  "isListProcessing parseDate now l \<longleftrightarrow>
     profile_count l = Some 0 \<and>
     (\<exists>s t. created_at l = Some s \<and> s \<noteq> [] \<and> parseDate s = Some t \<and>
            now - t < 10 * 60 * 1000)"
  by (auto simp: isListProcessing_def diffMinutes_lt_10 split: option.splits)

theorem isListProcessing_iff_witness:
  "isListProcessing exampleParse (1704067200000 + 599999) listA \<and>
   \<not> isListProcessing exampleParse (1704067200000 + 600000) listA \<and>
   \<not> isListProcessing exampleParse (1704067200000 + 1) (listA\<lparr>profile_count := Some 3\<rparr>)"
  using isListProcessing_iff [of exampleParse "1704067200000 + 599999" listA]
        isListProcessing_iff [of exampleParse "1704067200000 + 600000" listA]
        isListProcessing_iff [of exampleParse "1704067200000 + 1" "listA\<lparr>profile_count := Some 3\<rparr>"]
  by (simp add: listA_def exampleParse_def)

text \<open>
  C10. A fetched list that has no \<open>profile_count\<close> field (for instance one sized only
  through \<open>count\<close>) or no \<open>created_at\<close> field is not classified as processing.
\<close>

theorem isListProcessing_missing_field:
  "profile_count l = None \<or> created_at l = None \<Longrightarrow> \<not> isListProcessing parseDate now l"
  by (auto simp: isListProcessing_def)

theorem isListProcessing_missing_field_witness:
  "profile_count listCountOnly = None \<and> count' listCountOnly = Some 0 \<and>
   \<not> isListProcessing exampleParse 1704067201000 listCountOnly"
  using isListProcessing_missing_field [of listCountOnly exampleParse 1704067201000]
  by (simp add: listCountOnly_def)

section \<open>Properties of the API client\<close>

lemma requestOf_headers:
  "init_headers (requestOf envUrl envKey c) =
     (if API_KEY envKey \<noteq> []
      then [''Content-Type'' \<mapsto> ''application/json'', ''X-API-KEY'' \<mapsto> API_KEY envKey]
      else [''Content-Type'' \<mapsto> ''application/json''])"
  by (cases c) (simp_all add: requestOf_def buildRequest_def)

text \<open>
  C9. Every request that an operation of the \<open>api\<close> object issues carries
  \<open>Content-Type: application/json\<close>, and it carries \<open>X-API-KEY\<close> exactly when the
  configured key is non-empty, with the key as its value.
\<close>

theorem request_headers:
  "init_headers (requestOf envUrl envKey c) ''Content-Type'' = Some ''application/json'' \<and>
   (''X-API-KEY'' \<in> dom (init_headers (requestOf envUrl envKey c)) \<longleftrightarrow> API_KEY envKey \<noteq> []) \<and>
   (API_KEY envKey \<noteq> [] \<longrightarrow>
      init_headers (requestOf envUrl envKey c) ''X-API-KEY'' = Some (API_KEY envKey))"
  by (simp add: requestOf_headers)

theorem request_headers_witness:
  "init_headers (requestOf None (Some ''s3cret'') getLists) ''Content-Type'' = Some ''application/json'' \<and>
   init_headers (requestOf None (Some ''s3cret'') getLists) ''X-API-KEY'' = Some ''s3cret'' \<and>
   ''X-API-KEY'' \<notin> dom (init_headers (requestOf None None getLists)) \<and>
   ''X-API-KEY'' \<notin> dom (init_headers (requestOf None (Some []) getLists))"
  using request_headers [of None "Some ''s3cret''" getLists]
        request_headers [of None None getLists]
        request_headers [of None "Some []" getLists]
  by (simp add: API_KEY_def)






section \<open>Properties of the polling effect\<close>

lemma stillProcessing_iff:
  "stillProcessing parseDate now ids updatedLists \<longleftrightarrow>
     (\<exists>l \<in> set updatedLists. id' l \<in> set ids \<and> isListProcessing parseDate now l)"
  by (simp add: stillProcessing_def list_ex_iff)

lemma processingIds_empty_iff:
  "processingIds parseDate now ls = [] \<longleftrightarrow> (\<forall>l \<in> set ls. \<not> isListProcessing parseDate now l)"
  by (simp add: processingIds_def filter_empty_conv)

lemma run_no_loop: "loop p = None \<Longrightarrow> run parseDate es p = p"
proof (induction es)
  case Nil
  then show ?case by simp
next
  case (Cons e es)
  then have "step parseDate e p = p"
    by (cases e) simp_all
  with Cons show ?case by simp
qed

lemma startedA_eq:
  "startedA = pageA\<lparr>loop := Some \<lparr>processingListIds = [''a''], isPolling = True, cleared = False\<rparr>,
                    setIntervalCalls := 1\<rparr>"
  by (simp add: startedA_def pageA_def initialPage_def pollingEffect_def processingIds_def
      isListProcessing_def diffMinutes_def listA_def exampleParse_def)

lemma listA_processing_at_6s: "isListProcessing exampleParse 1704067206000 listA"
  by (simp add: isListProcessing_def diffMinutes_def listA_def exampleParse_def)

lemma settledA_eq:
  "settledA = pageA\<lparr>lists := [listA\<lparr>profile_count := Some 5\<rparr>],
                    calls := [getLists], setListsCalls := 1, setIntervalCalls := 1,
                    loop := Some \<lparr>processingListIds = [''a''], isPolling = False,
                                  cleared = False\<rparr>\<rparr>"
  by (simp add: settledA_def startedA_eq pageA_def initialPage_def isListProcessing_def
      listA_def stillProcessing_def setLists_def)

lemma rerunA_eq:
  "rerunA = pageA\<lparr>lists := [listA\<lparr>profile_count := Some 5\<rparr>, listCountOnly],
                  calls := [getLists], setListsCalls := 2, setIntervalCalls := 1,
                  loop := Some \<lparr>processingListIds = [''a''], isPolling = False,
                                cleared = True\<rparr>\<rparr>"
  by (simp add: rerunA_def settledA_eq pageA_def initialPage_def setLists_def)

text \<open>
  C7. When no list of the collection is classified as processing, the effect returns
  without creating a timer: it leaves the component exactly as it was, whatever ran
  before. No \<open>setInterval\<close> call and no fetch is made, no closure is added, and all
  that happens afterwards is what would have happened had the effect not run.
\<close>

theorem pollingEffect_idle:
  assumes "\<forall>l \<in> set (lists p). \<not> isListProcessing parseDate now l"
  shows "pollingEffect parseDate now p = p \<and>
         setIntervalCalls (pollingEffect parseDate now p) = setIntervalCalls p \<and>
         calls (pollingEffect parseDate now p) = calls p \<and>
         loop (pollingEffect parseDate now p) = loop p \<and>
         earlier (pollingEffect parseDate now p) = earlier p \<and>
         run parseDate es (pollingEffect parseDate now p) = run parseDate es p"
proof -
  from assms have "processingIds parseDate now (lists p) = []"
    by (simp only: processingIds_empty_iff)
  then have "pollingEffect parseDate now p = p"
    by (simp add: pollingEffect_def)
  then show ?thesis
    by simp
qed

theorem pollingEffect_idle_witness:
  "\<not> isListProcessing exampleParse 1704067260000 (listA\<lparr>profile_count := Some 5\<rparr>) \<and>
   \<not> isListProcessing exampleParse 1704067260000 listCountOnly \<and>
   loop rerunA \<noteq> None \<and>
   pollingEffect exampleParse 1704067260000 rerunA = rerunA \<and>
   setIntervalCalls (pollingEffect exampleParse 1704067260000 rerunA) = 1 \<and>
   calls (run exampleParse [Tick, Tick, Tick]
            (pollingEffect exampleParse 1704067260000 rerunA)) = [getLists]"
proof -
  have n: "\<not> isListProcessing exampleParse 1704067260000 (listA\<lparr>profile_count := Some 5\<rparr>)"
    "\<not> isListProcessing exampleParse 1704067260000 listCountOnly"
    by (simp_all add: isListProcessing_def listCountOnly_def)
  have l: "lists rerunA = [listA\<lparr>profile_count := Some 5\<rparr>, listCountOnly]"
    by (simp add: rerunA_eq)
  have h: "\<forall>l \<in> set (lists rerunA). \<not> isListProcessing exampleParse 1704067260000 l"
    using n by (simp add: l)
  have v: "loop rerunA \<noteq> None" "setIntervalCalls rerunA = 1"
    "calls (run exampleParse [Tick, Tick, Tick] rerunA) = [getLists]"
    by (simp_all add: rerunA_eq pageA_def initialPage_def)
  from pollingEffect_idle [OF h, of "[Tick, Tick, Tick]"]
  have e: "pollingEffect exampleParse 1704067260000 rerunA = rerunA"
    and c: "setIntervalCalls (pollingEffect exampleParse 1704067260000 rerunA)
              = setIntervalCalls rerunA"
    and r: "run exampleParse [Tick, Tick, Tick] (pollingEffect exampleParse 1704067260000 rerunA)
              = run exampleParse [Tick, Tick, Tick] rerunA"
    by blast+
  from n v e c r show ?thesis
    by (simp only: simp_thms)
qed

text \<open>
  When some list is processing, on the other hand, the effect does call \<open>setInterval\<close>,
  and the closure of the run before is kept with its calls still awaiting.
\<close>

lemma pollingEffect_starts:
  assumes "\<exists>l \<in> set (lists p). isListProcessing parseDate now l"
  shows "setIntervalCalls (pollingEffect parseDate now p) = setIntervalCalls p + 1"
    and "loopActive (pollingEffect parseDate now p)"
    and "loop p = Some lp \<Longrightarrow>
           earlier (pollingEffect parseDate now p) = earlier p @ [(lp, pending p)]"
    and "loop p = None \<Longrightarrow> earlier (pollingEffect parseDate now p) = earlier p"
proof -
  from assms have "processingIds parseDate now (lists p) \<noteq> []"
    by (simp only: processingIds_empty_iff) blast
  then show "setIntervalCalls (pollingEffect parseDate now p) = setIntervalCalls p + 1"
    and "loopActive (pollingEffect parseDate now p)"
    and "loop p = Some lp \<Longrightarrow>
           earlier (pollingEffect parseDate now p) = earlier p @ [(lp, pending p)]"
    and "loop p = None \<Longrightarrow> earlier (pollingEffect parseDate now p) = earlier p"
    by (simp_all add: pollingEffect_def loopActive_def)
qed

text \<open>
  C4. When a poll response arrives in which one of the lists that the loop tracks is
  still classified as processing, the component's \<open>lists\<close> stay as they are and
  \<open>setLists\<close> is not called; the synchronous part of the tick does not touch them either.
\<close>

theorem tick_still_processing_frame:
  assumes "\<exists>l \<in> set updatedLists.
             id' l \<in> set (processingListIds lp) \<and> isListProcessing parseDate now l"
    and "loop p = Some lp"
  shows "lists (step parseDate (Resolved updatedLists now) p) = lists p \<and>
         setListsCalls (step parseDate (Resolved updatedLists now) p) = setListsCalls p \<and>
         loop (step parseDate (Resolved updatedLists now) p) = loop p \<and>
         lists (step parseDate Tick p) = lists p"
  using assms by (simp add: stillProcessing_iff)

theorem tick_still_processing_frame_witness:
  "id' listA = ''a'' \<and> isListProcessing exampleParse 1704067206000 listA \<and>
   lists (step exampleParse (Resolved [listA, listCountOnly] 1704067206000)
            (step exampleParse Tick startedA)) = [listA]"
proof -
  let ?lp = "\<lparr>processingListIds = [''a''], isPolling = True, cleared = False\<rparr>"
  let ?p = "step exampleParse Tick startedA"
  have h1: "\<exists>l \<in> set [listA, listCountOnly].
              id' l \<in> set (processingListIds ?lp) \<and> isListProcessing exampleParse 1704067206000 l"
    using listA_processing_at_6s by (simp add: listA_def)
  have h2: "loop ?p = Some ?lp"
    by (simp add: startedA_eq)
  have l: "lists ?p = [listA]"
    by (simp add: startedA_eq pageA_def)
  have i: "id' listA = ''a''"
    by (simp add: listA_def)
  from tick_still_processing_frame [OF h1 h2] l
  have "lists (step exampleParse (Resolved [listA, listCountOnly] 1704067206000) ?p) = [listA]"
    by simp
  with i listA_processing_at_6s show ?thesis
    by blast
qed

text \<open>
  C6. A poll tick whose fetch fails changes nothing in the component but the record of
  the call made: \<open>lists\<close> are untouched, the timer and \<open>isPolling\<close> stay as they were, so
  the loop is still active and the next tick fetches again.
\<close>

theorem failed_tick_noop:
  assumes "loopActive p"
  shows "run parseDate [Tick, Rejected] p = p\<lparr>calls := calls p @ [getLists]\<rparr> \<and>
         lists (run parseDate [Tick, Rejected] p) = lists p \<and>
         setListsCalls (run parseDate [Tick, Rejected] p) = setListsCalls p \<and>
         loopActive (run parseDate [Tick, Rejected] p) \<and>
         calls (step parseDate Tick (run parseDate [Tick, Rejected] p))
           = calls p @ [getLists, getLists]"
proof -
  from assms obtain lp where lp: "loop p = Some lp" "isPolling lp" "\<not> cleared lp"
    by (auto simp: loopActive_def split: option.splits)
  have r: "run parseDate [Tick, Rejected] p = p\<lparr>calls := calls p @ [getLists]\<rparr>"
    using lp by simp
  have a: "loopActive (p\<lparr>calls := calls p @ [getLists]\<rparr>)"
    using assms by (simp add: loopActive_def)
  have t: "step parseDate Tick (p\<lparr>calls := calls p @ [getLists]\<rparr>)
             = p\<lparr>calls := calls p @ [getLists, getLists], pending := pending p + 1\<rparr>"
    using lp by simp
  show ?thesis
    unfolding r t using a by simp
qed

theorem failed_tick_noop_witness:
  "loopActive startedA \<and>
   lists (run exampleParse [Tick, Rejected] startedA) = [listA] \<and>
   loopActive (run exampleParse [Tick, Rejected] startedA) \<and>
   calls (step exampleParse Tick (run exampleParse [Tick, Rejected] startedA))
     = [getLists, getLists]"
proof -
  have h: "loopActive startedA"
    by (simp add: startedA_eq loopActive_def)
  have l: "lists startedA = [listA]" "calls startedA = []"
    by (simp_all add: startedA_eq pageA_def initialPage_def)
  from failed_tick_noop [OF h, of exampleParse] show ?thesis
    using h l by (simp add: startedA_eq pageA_def initialPage_def loopActive_def)
qed

subsection \<open>Settlement\<close>

text \<open>
  A response in which none of the tracked lists is processing replaces \<open>lists\<close> with the
  fetched data and clears \<open>isPolling\<close>.
\<close>

lemma step_Resolved_settles:
  assumes "loop p = Some lp" and "pending p > 0"
    and "\<not> stillProcessing parseDate now (processingListIds lp) updatedLists"
  shows "lists (step parseDate (Resolved updatedLists now) p) = updatedLists"
    and "setListsCalls (step parseDate (Resolved updatedLists now) p) = setListsCalls p + 1"
    and "\<not> loopActive (step parseDate (Resolved updatedLists now) p)"
    and "pending (step parseDate (Resolved updatedLists now) p) = pending p - 1"
  using assms by (simp_all add: setLists_def loopActive_def)

text \<open>
  Once the loop is no longer active and no call is awaiting its response, nothing that
  happens to this run of the effect changes \<open>lists\<close> or fetches again.
\<close>

lemma step_quiescent:
  assumes "\<not> loopActive p" and "pending p = 0"
  shows "\<not> loopActive (step parseDate e p) \<and> pending (step parseDate e p) = 0 \<and>
         lists (step parseDate e p) = lists p \<and>
         setListsCalls (step parseDate e p) = setListsCalls p \<and>
         calls (step parseDate e p) = calls p"
  using assms by (cases e) (auto simp: loopActive_def split: option.splits)

lemma run_quiescent:
  assumes "\<not> loopActive p" and "pending p = 0"
  shows "lists (run parseDate es p) = lists p \<and>
         setListsCalls (run parseDate es p) = setListsCalls p \<and>
         calls (run parseDate es p) = calls p"
  using assms
proof (induction es arbitrary: p)
  case Nil
  then show ?case by simp
next
  case (Cons e es)
  from step_quiescent [OF Cons.prems, of parseDate e]
  have q: "\<not> loopActive (step parseDate e p)" "pending (step parseDate e p) = 0"
    and f: "lists (step parseDate e p) = lists p"
      "setListsCalls (step parseDate e p) = setListsCalls p"
      "calls (step parseDate e p) = calls p"
    by simp_all
  from Cons.IH [OF q] f show ?case by simp
qed

text \<open>
  With a single call in flight, therefore, the settling tick writes \<open>lists\<close> once and
  nothing later writes them again.
\<close>

lemma settle_then_quiet:
  assumes "loop p = Some lp" and "pending p = 1"
    and "\<not> stillProcessing parseDate now (processingListIds lp) updatedLists"
  shows "lists (run parseDate (Resolved updatedLists now # es) p) = updatedLists \<and>
         setListsCalls (run parseDate (Resolved updatedLists now # es) p) = setListsCalls p + 1"
proof -
  let ?q = "step parseDate (Resolved updatedLists now) p"
  from assms have pos: "pending p > 0" by simp
  from step_Resolved_settles [OF assms(1) pos assms(3)] assms(2)
  have q: "\<not> loopActive ?q" "pending ?q = 0"
    and w: "lists ?q = updatedLists" "setListsCalls ?q = setListsCalls p + 1"
    by simp_all
  from run_quiescent [OF q, of parseDate es] w show ?thesis by simp
qed

text \<open>
  C2, on the code. The list \<open>listA\<close> is processing and the loop is started; the timer
  fires and the callback awaits \<open>api.getLists()\<close>; the effect is cleaned up; then the
  awaited call returns the list with five profiles. After the cleanup the loop is not
  active and \<open>lists\<close> is still \<open>[listA]\<close>, yet the late response is written to \<open>lists\<close>:
  the callback does not read \<open>isPolling\<close> again after the \<open>await\<close>.
\<close>

theorem cleanup_then_response_writes:
  "\<not> loopActive (run exampleParse [Tick, Cleanup] startedA) \<and>
   lists (run exampleParse [Tick, Cleanup] startedA) = [listA] \<and>
   setListsCalls (run exampleParse [Tick, Cleanup] startedA) = 0 \<and>
   lists (run exampleParse
            [Tick, Cleanup, Resolved [listA\<lparr>profile_count := Some 5\<rparr>] 1704067206000] startedA)
     = [listA\<lparr>profile_count := Some 5\<rparr>] \<and>
   setListsCalls (run exampleParse
            [Tick, Cleanup, Resolved [listA\<lparr>profile_count := Some 5\<rparr>] 1704067206000] startedA)
     = 1"
  by (simp add: startedA_eq pageA_def initialPage_def isListProcessing_def listA_def
      stillProcessing_def setLists_def loopActive_def)

text \<open>
  C3, on the code. The timer fires twice before the first response arrives, so two calls
  are in flight. The first response settles the loop: \<open>lists\<close> is replaced and the loop is
  no longer active. The response of the second tick is then written to \<open>lists\<close> as well:
  the collection is replaced twice, the second time by a tick that follows the settling
  one.
\<close>

theorem overlapping_ticks_write_twice:
  "\<not> loopActive (run exampleParse
      [Tick, Tick, Resolved [listA\<lparr>profile_count := Some 5\<rparr>] 1704067211000] startedA) \<and>
   lists (run exampleParse
      [Tick, Tick, Resolved [listA\<lparr>profile_count := Some 5\<rparr>] 1704067211000] startedA)
     = [listA\<lparr>profile_count := Some 5\<rparr>] \<and>
   lists (run exampleParse
      [Tick, Tick, Resolved [listA\<lparr>profile_count := Some 5\<rparr>] 1704067211000,
       Resolved [listA\<lparr>profile_count := Some 7\<rparr>] 1704067212000] startedA)
     = [listA\<lparr>profile_count := Some 7\<rparr>] \<and>
   setListsCalls (run exampleParse
      [Tick, Tick, Resolved [listA\<lparr>profile_count := Some 5\<rparr>] 1704067211000,
       Resolved [listA\<lparr>profile_count := Some 7\<rparr>] 1704067212000] startedA) = 2"
  by (simp add: startedA_eq pageA_def initialPage_def isListProcessing_def listA_def
      stillProcessing_def setLists_def loopActive_def)

subsection \<open>A response that belongs to an earlier run\<close>

text \<open>
  The same late write with the component still mounted. A second list arrives while the
  first poll is in flight, so React cleans the run up and starts a new one; the response
  of the old run, fetched before the second list existed, then replaces \<open>lists\<close>.
\<close>

lemma restartedA_eq:
  "restartedA = pageA\<lparr>lists := [listA, listCountOnly], calls := [getLists],
                      setListsCalls := 1, setIntervalCalls := 2,
                      loop := Some \<lparr>processingListIds = [''a''], isPolling = True,
                                    cleared = False\<rparr>,
                      earlier := [(\<lparr>processingListIds = [''a''], isPolling = False,
                                    cleared = True\<rparr>, 1)]\<rparr>"
  by (simp add: restartedA_def startedA_eq pageA_def initialPage_def setLists_def
      pollingEffect_def processingIds_def isListProcessing_def diffMinutes_def
      listA_def listCountOnly_def exampleParse_def Let_def)

lemma stale_response_of_earlier_run:
  "lists restartedA = [listA, listCountOnly] \<and>
   lists (stepEarlier exampleParse 0
            (Resolved [listA\<lparr>profile_count := Some 5\<rparr>] 1704067208000) restartedA)
     = [listA\<lparr>profile_count := Some 5\<rparr>] \<and>
   loopActive (stepEarlier exampleParse 0
            (Resolved [listA\<lparr>profile_count := Some 5\<rparr>] 1704067208000) restartedA)"
  by (simp add: restartedA_eq stepEarlier_def pageA_def initialPage_def setLists_def
      stillProcessing_def isListProcessing_def listA_def loopActive_def)

section \<open>Properties of the mutation handlers\<close>

lemma handleGenerateList_failure:
  "trim (searchUrl p) \<noteq> [] \<Longrightarrow>
   handleGenerateList trim (Inl e) listsRes p =
     p\<lparr>isLoading := False,
       toasts := toasts p @ [errorToast ''Failed to generate list'' e],
       calls := calls p @ [populateList (requestData p)]\<rparr>"
  by (simp add: handleGenerateList_def toast_def Let_def)

lemma handleRename_failure:
  "listToRename p = Some l \<Longrightarrow> trim (newListName p) \<noteq> [] \<Longrightarrow>
   handleRename trim (Inl e) listsRes p =
     p\<lparr>isRenaming := False,
       toasts := toasts p @ [errorToast ''Failed to rename list'' e],
       calls := calls p @ [updateList (id' l) (JObj [(''name'', JStr (trim (newListName p)))])]\<rparr>"
  by (simp add: handleRename_def toast_def Let_def)

lemma handleDelete_failure:
  "listToDelete p = Some l \<Longrightarrow>
   handleDelete (Inl e) listsRes p =
     p\<lparr>isDeleting := False,
       toasts := toasts p @ [errorToast ''Failed to delete list'' e],
       calls := calls p @ [deleteList (id' l)]\<rparr>"
  by (simp add: handleDelete_def toast_def Let_def)

text \<open>
  C8. When the API call of a mutation handler throws (populate, rename, delete), the
  list collection and the submitted form data are as before, one error toast has been
  added, and the call was made once.
\<close>

theorem mutation_failure_frame:
  "(trim (searchUrl p) \<noteq> [] \<longrightarrow>
      (let p' = handleGenerateList trim (Inl e) listsRes p in
       lists p' = lists p \<and> searchUrl p' = searchUrl p \<and> profileLimit p' = profileLimit p \<and>
       collectOnly p' = collectOnly p \<and> sendNote p' = sendNote p \<and> noteText p' = noteText p \<and>
       isModalOpen p' = isModalOpen p \<and>
       toasts p' = toasts p @ [errorToast ''Failed to generate list'' e] \<and>
       calls p' = calls p @ [populateList (requestData p)])) \<and>
   (listToRename p = Some l \<and> trim (newListName p) \<noteq> [] \<longrightarrow>
      (let p' = handleRename trim (Inl e) listsRes p in
       lists p' = lists p \<and> listToRename p' = listToRename p \<and>
       newListName p' = newListName p \<and> renameDialogOpen p' = renameDialogOpen p \<and>
       toasts p' = toasts p @ [errorToast ''Failed to rename list'' e] \<and>
       calls p' = calls p
                  @ [updateList (id' l) (JObj [(''name'', JStr (trim (newListName p)))])])) \<and>
   (listToDelete p = Some d \<longrightarrow>
      (let p' = handleDelete (Inl e) listsRes p in
       lists p' = lists p \<and> listToDelete p' = listToDelete p \<and>
       deleteDialogOpen p' = deleteDialogOpen p \<and>
       toasts p' = toasts p @ [errorToast ''Failed to delete list'' e] \<and>
       calls p' = calls p @ [deleteList (id' d)]))"
  by (simp add: handleGenerateList_failure handleRename_failure handleDelete_failure Let_def)

lemma asciiTrim_examples:
  "asciiTrim ''https://x/search?kw=eng'' \<noteq> []" "asciiTrim '' Leads '' = ''Leads''"
  by (simp_all add: asciiTrim_def isWhiteSpace_def)

theorem mutation_failure_frame_witness:
  "asciiTrim (searchUrl formA) \<noteq> [] \<and> listToRename formA = Some listA \<and>
   asciiTrim (newListName formA) \<noteq> [] \<and> listToDelete formA = Some listA \<and>
   lists (handleGenerateList asciiTrim (Inl (Error ''rate limited'')) (Inr []) formA) = [listA] \<and>
   searchUrl (handleGenerateList asciiTrim (Inl (Error ''rate limited'')) (Inr []) formA)
     = ''https://x/search?kw=eng'' \<and>
   toasts (handleGenerateList asciiTrim (Inl (Error ''rate limited'')) (Inr []) formA)
     = [\<lparr>title = ''Error'', description = ''rate limited'', variant = Some ''destructive''\<rparr>] \<and>
   lists (handleRename asciiTrim (Inl (Error ''rate limited'')) (Inr []) formA) = [listA] \<and>
   newListName (handleRename asciiTrim (Inl (Error ''rate limited'')) (Inr []) formA)
     = '' Leads '' \<and>
   lists (handleDelete (Inl (Error ''rate limited'')) (Inr []) formA) = [listA] \<and>
   calls (handleDelete (Inl (Error ''rate limited'')) (Inr []) formA) = [deleteList ''a'']"
proof -
  have h: "asciiTrim (searchUrl formA) \<noteq> []" "listToRename formA = Some listA"
    "asciiTrim (newListName formA) \<noteq> []" "listToDelete formA = Some listA"
    by (simp_all add: formA_def pageA_def asciiTrim_examples)
  have v: "lists formA = [listA]" "searchUrl formA = ''https://x/search?kw=eng''"
    "newListName formA = '' Leads ''" "toasts formA = []" "calls formA = []"
    by (simp_all add: formA_def pageA_def initialPage_def)
  have i: "id' listA = ''a''"
    by (simp add: listA_def)
  from mutation_failure_frame
         [of asciiTrim formA "Error ''rate limited''" "Inr []" listA listA]
  show ?thesis
    using h v i by (simp add: Let_def errorToast_def)
qed

end
